theory Spec2Isabelle
  imports Complex_Main
begin

section \<open>The projection engine of \<open>projections.py\<close>\<close>

text \<open>
  The module projects points of 3D space onto a plane, as seen from a viewpoint, and
  expresses the projected point in two basis vectors of the plane. This theory embeds
  its geometric core: \<open>mult_vec\<close>, \<open>sum_vec\<close>, \<open>decompose\<close>, \<open>normalize_vec\<close>, the class
  \<open>Plane\<close> (\<open>project_vector\<close>, \<open>project_through\<close>, \<open>get_vectors\<close>) and the class \<open>View\<close>
  (\<open>project_point\<close>, \<open>project_points\<close>, \<open>move_point\<close>).

  Numbers. The source computes with Python numbers (annotated \<open>float\<close>; \<open>main\<close> also passes
  \<open>int\<close>). The functions that only add, subtract, multiply and divide are embedded for an
  arbitrary number type \<open>'a\<close>, and every theorem names the laws of arithmetic it needs in
  the sort of \<open>'a\<close>: a theorem for \<open>'a::{zero,plus,minus,uminus,times,inverse}\<close> uses no law
  at all, so it holds whatever the arithmetic rounds to; a theorem for \<open>'a::field\<close> or for
  \<open>real\<close> is a statement about exact arithmetic, which is also the data model of the
  specification (triples of real numbers). The operators \<open>+\<close>, \<open>-\<close>, \<open>*\<close>, \<open>/\<close> and \<open>sqrt\<close> are
  exact in the model. \<open>math.fsum\<close> is modelled with its rounding to a double
  (\<open>round_double\<close>): its result is what \<open>move_point\<close> stores as the new viewpoint, so its
  rounding error stays in the state of the view. Infinities, NaN, overflow and
  subnormal numbers are not part of the model.

  Errors. Python's \<open>/\<close> raises \<open>ZeroDivisionError\<close> when the divisor equals zero, for \<open>int\<close>
  and \<open>float\<close> alike. A function that can raise returns \<open>py_error + result\<close>.
\<close>

subsection \<open>Values and errors\<close>

type_synonym 'a Vector2 = "'a \<times> 'a"
type_synonym 'a Vector3 = "'a \<times> 'a \<times> 'a"

datatype py_error = ZeroDivisionError

text \<open>\<open>v[0]\<close>, \<open>v[1]\<close>, \<open>v[2]\<close> of a 3-tuple.\<close>

definition idx0 :: "'a Vector3 \<Rightarrow> 'a" where
  "idx0 v = fst v"

definition idx1 :: "'a Vector3 \<Rightarrow> 'a" where
  "idx1 v = fst (snd v)"

definition idx2 :: "'a Vector3 \<Rightarrow> 'a" where
  "idx2 v = snd (snd v)"

text \<open>Python's true division \<open>x / y\<close>.\<close>

definition py_div :: "'a::{zero,inverse} \<Rightarrow> 'a \<Rightarrow> py_error + 'a" where
  "py_div x y = (if y = 0 then Inl ZeroDivisionError else Inr (x / y))"

text \<open>Sequencing of two computations that may raise: the first error ends the run.\<close>

definition and_then :: "py_error + 'a \<Rightarrow> ('a \<Rightarrow> py_error + 'b) \<Rightarrow> py_error + 'b" where
  "and_then r f = (case r of Inl e \<Rightarrow> Inl e | Inr x \<Rightarrow> f x)"

text \<open>
  The built-in \<open>round(x)\<close> with one argument: the nearest integer, and the even one of the
  two when \<open>x\<close> lies halfway between them.
\<close>

definition py_round :: "real \<Rightarrow> int" where
  "py_round x =
     (let f = \<lfloor>x\<rfloor>; d = x - of_int f
      in if d < 1 / 2 then f
         else if 1 / 2 < d then f + 1
         else if even f then f else f + 1)"

text \<open>
  The double nearest to a real number, the one with the even significand when two are
  equally near: a double has a significand of 53 bits, so between \<open>2 ^ e\<close> and
  \<open>2 ^ (e + 1)\<close> the doubles are the multiples of \<open>2 ^ (e - 52)\<close>. The range of the exponent
  is not bounded here.
\<close>

definition round_double :: "real \<Rightarrow> real" where
  "round_double x =
     (if x = 0 then 0
      else let e = \<lfloor>log 2 \<bar>x\<bar>\<rfloor>; u = 2 powr (of_int e - 52)
           in of_int (py_round (x / u)) * u)"

text \<open>
  \<open>math.fsum\<close> returns the exact sum of its arguments, rounded once to a double. (It
  raises \<open>OverflowError\<close> when the sum exceeds the range of the doubles, which the model
  leaves out.)
\<close>

definition fsum :: "real list \<Rightarrow> real" where
  "fsum xs = round_double (sum_list xs)"

subsection \<open>Vector functions\<close>

definition mult_vec :: "'a::times Vector3 \<Rightarrow> 'a \<Rightarrow> 'a Vector3" where
  "mult_vec v m = (idx0 v * m, idx1 v * m, idx2 v * m)"

text \<open>
  \<open>tuple(map(fsum, zip(*l)))\<close>: the i-th component of the result sums the i-th components
  of the vectors of \<open>l\<close>. Every call of the module passes a list of two vectors. (On the
  empty list Python yields the empty tuple, which is no \<open>Vector3f\<close>; the embedding is not
  used there.)
\<close>

definition sum_vec :: "real Vector3 list \<Rightarrow> real Vector3" where
  "sum_vec l = (fsum (map idx0 l), fsum (map idx1 l), fsum (map idx2 l))"

text \<open>
  \<open>decompose\<close>: both divisions sit in the \<open>try\<close> block, and the handler of
  \<open>ZeroDivisionError\<close> returns \<open>(0, 0)\<close>.
\<close>

definition decompose ::
  "'a::{zero,minus,times,inverse} Vector3 \<Rightarrow> 'a Vector3 \<times> 'a Vector3 \<Rightarrow> py_error + 'a Vector2"
where
  "decompose v basis =
     (let a = fst basis; b = snd basis
      in case and_then (py_div (idx0 v * idx1 a - idx1 v * idx0 a)
                               (idx0 b * idx1 a - idx1 b * idx0 a))
                (\<lambda>n. and_then (py_div (idx0 v - n * idx0 b) (idx0 a))
                (\<lambda>m. Inr (n, m)))
         of Inl ZeroDivisionError \<Rightarrow> Inr (0, 0)
          | Inr nm \<Rightarrow> Inr nm)"

definition normalize_vec :: "real Vector3 \<Rightarrow> py_error + real Vector3" where
  "normalize_vec v =
     (let M = sqrt ((idx0 v)\<^sup>2 + (idx1 v)\<^sup>2 + (idx2 v)\<^sup>2)
      in and_then (py_div (idx0 v) M)
           (\<lambda>x. and_then (py_div (idx1 v) M)
           (\<lambda>y. and_then (py_div (idx2 v) M)
           (\<lambda>z. Inr (x, y, z)))))"

subsection \<open>Plane\<close>

record 'a Plane =
  normal :: "'a Vector3"
  intercept :: 'a

definition project_vector ::
  "'a::{zero,plus,minus,uminus,times,inverse} Plane \<Rightarrow> 'a Vector3 \<Rightarrow> 'a Vector3
     \<Rightarrow> py_error + 'a Vector3"
where
  "project_vector self pnt view =
     (let A = idx0 (normal self); B = idx1 (normal self); C = idx2 (normal self);
          D = intercept self;
          x = idx0 pnt; y = idx1 pnt; z = idx2 pnt;
          mx = x - idx0 view; my = y - idx1 view; mz = z - idx2 view
      in and_then (py_div (- (A * x + B * y + C * z + D)) (A * mx + B * my + C * mz))
           (\<lambda>t. Inr (x + t * mx, y + t * my, z + t * mz)))"

definition project_through :: "real Plane \<Rightarrow> real Vector3 \<Rightarrow> py_error + real Vector3" where
  "project_through self pnt = project_vector self pnt (sum_vec [pnt, normal self])"

definition get_vectors ::
  "real Plane \<Rightarrow> real Vector3 \<Rightarrow> py_error + (real Vector3 \<times> real Vector3)"
where
  "get_vectors self hint =
     (let A = idx0 (normal self); B = idx1 (normal self); C = idx2 (normal self)
      in and_then (project_through self hint)
           (\<lambda>p. and_then (normalize_vec p)
           (\<lambda>q. let x = B * idx2 q - C * idx1 q;
                     y = C * idx0 q - A * idx2 q;
                     z = A * idx1 q - B * idx0 q
                 in and_then (normalize_vec (x, y, z))
                      (\<lambda>r. Inr (q, r)))))"

subsection \<open>View\<close>

record View =
  point :: "real Vector3"
  plane :: "real Plane"
  basis :: "real Vector3 \<times> real Vector3"

text \<open>The constructor; the hint defaults to \<open>(1, 1, 1)\<close>.\<close>

definition View_init :: "real Vector3 \<Rightarrow> real Plane \<Rightarrow> real Vector3 \<Rightarrow> py_error + View" where
  "View_init pnt pl hint =
     and_then (get_vectors pl hint)
       (\<lambda>bs. Inr \<lparr>point = pnt, plane = pl, basis = bs\<rparr>)"

definition project_point :: "View \<Rightarrow> real Vector3 \<Rightarrow> py_error + int Vector2" where
  "project_point self pnt =
     and_then (project_vector (plane self) pnt (point self))
       (\<lambda>X. and_then (decompose X (basis self))
       (\<lambda>nm. Inr (py_round (fst nm), py_round (snd nm))))"

fun project_points :: "View \<Rightarrow> real Vector3 list \<Rightarrow> py_error + int Vector2 list" where
  "project_points self [] = Inr []"
| "project_points self (p # ps) =
     and_then (project_point self p)
       (\<lambda>c. and_then (project_points self ps)
       (\<lambda>cs. Inr (c # cs)))"

text \<open>\<open>move_point\<close> assigns \<open>self.point\<close>; the updated object is returned.\<close>

definition move_point :: "View \<Rightarrow> real Vector3 \<Rightarrow> View" where
  "move_point self v = self\<lparr>point := sum_vec [point self, v]\<rparr>"

subsection \<open>Vocabulary of the properties\<close>

text \<open>
  The properties below speak of scalar products, differences and cross products of
  vectors, of points on a plane and of rounding to the nearest integer. The source has
  no function for them (it writes the expressions out); these definitions only serve
  to state the theorems. The sums are bracketed as the source brackets them.
\<close>

text \<open>The exact sum of two vectors, where \<open>sum_vec\<close> computes the rounded one.\<close>

definition vec_add :: "'a::plus Vector3 \<Rightarrow> 'a Vector3 \<Rightarrow> 'a Vector3" where
  "vec_add u v = (idx0 u + idx0 v, idx1 u + idx1 v, idx2 u + idx2 v)"

definition dot :: "'a::{plus,times} Vector3 \<Rightarrow> 'a Vector3 \<Rightarrow> 'a" where
  "dot u v = idx0 u * idx0 v + idx1 u * idx1 v + idx2 u * idx2 v"

definition vec_sub :: "'a::minus Vector3 \<Rightarrow> 'a Vector3 \<Rightarrow> 'a Vector3" where
  "vec_sub u v = (idx0 u - idx0 v, idx1 u - idx1 v, idx2 u - idx2 v)"

definition cross :: "'a::{minus,times} Vector3 \<Rightarrow> 'a Vector3 \<Rightarrow> 'a Vector3" where
  "cross u v = (idx1 u * idx2 v - idx2 u * idx1 v,
                idx2 u * idx0 v - idx0 u * idx2 v,
                idx0 u * idx1 v - idx1 u * idx0 v)"

definition collinear :: "'a::{zero,minus,times} Vector3 \<Rightarrow> 'a Vector3 \<Rightarrow> bool" where
  "collinear u v = (cross u v = (0, 0, 0))"

text \<open>The plane is the set of the points \<open>X\<close> with \<open>normal \<cdot> X + intercept = 0\<close>.\<close>

definition on_plane :: "'a::{zero,plus,times} Plane \<Rightarrow> 'a Vector3 \<Rightarrow> bool" where
  "on_plane self X = (dot (normal self) X + intercept self = 0)"

text \<open>
  Rounding as the specification words it: \<open>i\<close> is a nearest integer of \<open>x\<close>, and the even
  one when \<open>x\<close> is halfway between two integers.
\<close>

definition nearest_half_even :: "real \<Rightarrow> int \<Rightarrow> bool" where
  "nearest_half_even x i =
     (\<bar>x - of_int i\<bar> \<le> 1 / 2 \<and> (\<bar>x - of_int i\<bar> = 1 / 2 \<longrightarrow> even i))"

text \<open>
  A number is a double when rounding leaves it alone, and a vector of doubles has three
  such components. Every number the code holds at run time is a double.
\<close>

definition is_double :: "real \<Rightarrow> bool" where
  "is_double x = (round_double x = x)"

definition double_vec :: "real Vector3 \<Rightarrow> bool" where
  "double_vec u = (is_double (idx0 u) \<and> is_double (idx1 u) \<and> is_double (idx2 u))"

text \<open>The view of the examples: the plane \<open>z = 0\<close>, seen from \<open>(0, 0, 2)\<close>.\<close>

definition ground :: "real Plane" where
  "ground = \<lparr>normal = (0, 0, 1), intercept = 0\<rparr>"

definition view0 :: View where
  "view0 = \<lparr>point = (0, 0, 2), plane = ground, basis = ((1, 0, 0), (0, 1, 0))\<rparr>"

section \<open>Auxiliary facts\<close>

lemmas idx_defs = idx0_def idx1_def idx2_def

lemma sum_vec_pair:
  "sum_vec [u, v] = (round_double (idx0 u + idx0 v), round_double (idx1 u + idx1 v),
                     round_double (idx2 u + idx2 v))"
  by (simp add: sum_vec_def fsum_def)

text \<open>Where no component is rounded, \<open>sum_vec\<close> of two vectors is their exact sum.\<close>

lemma sum_vec_exact:
  assumes "double_vec (vec_add u v)"
  shows "sum_vec [u, v] = vec_add u v"
  using assms by (simp add: sum_vec_pair double_vec_def is_double_def vec_add_def idx_defs)


text \<open>The handler catches the only error of the body: \<open>decompose\<close> never raises.\<close>

lemma decompose_total:
  fixes v :: "'a::{zero,minus,times,inverse} Vector3"
  shows "\<exists>nm. decompose v bs = Inr nm"
  by (simp add: decompose_def Let_def split: sum.split py_error.split)

subsection \<open>Rounding\<close>

lemma py_round_nearest: "nearest_half_even x (py_round x)"
proof -
  define f where "f = \<lfloor>x\<rfloor>"
  define d where "d = x - of_int f"
  have d: "0 \<le> d" "d < 1"
    unfolding d_def f_def by linarith+
  have r: "py_round x =
      (if d < 1 / 2 then f else if 1 / 2 < d then f + 1 else if even f then f else f + 1)"
    by (simp add: py_round_def Let_def f_def d_def)
  consider "d < 1 / 2" | "1 / 2 < d" | "d = 1 / 2" "even f" | "d = 1 / 2" "odd f"
    by fastforce
  then show ?thesis
  proof cases
    case 1
    then have "py_round x = f" by (simp add: r)
    moreover have "\<bar>x - of_int f\<bar> < 1 / 2" using 1 d by (simp add: d_def)
    ultimately show ?thesis by (simp add: nearest_half_even_def)
  next
    case 2
    then have "py_round x = f + 1" by (simp add: r)
    moreover have "\<bar>x - of_int (f + 1)\<bar> < 1 / 2" using 2 d by (simp add: d_def)
    ultimately show ?thesis by (simp add: nearest_half_even_def)
  next
    case 3
    then have "py_round x = f" by (simp add: r)
    moreover have "\<bar>x - of_int f\<bar> = 1 / 2" using 3 by (simp add: d_def)
    ultimately show ?thesis using 3 by (simp add: nearest_half_even_def)
  next
    case 4
    then have "py_round x = f + 1" by (simp add: r)
    moreover have "\<bar>x - of_int (f + 1)\<bar> = 1 / 2" using 4 by (simp add: d_def)
    ultimately show ?thesis using 4 by (simp add: nearest_half_even_def)
  qed
qed

text \<open>The wording of the specification determines the rounded value.\<close>

lemma nearest_half_even_unique:
  assumes "nearest_half_even x i" and "nearest_half_even x j"
  shows "i = j"
proof (rule ccontr)
  assume ne: "i \<noteq> j"
  from assms have a: "\<bar>x - of_int i\<bar> \<le> 1 / 2" and b: "\<bar>x - of_int j\<bar> \<le> 1 / 2"
    by (simp_all add: nearest_half_even_def)
  then have "\<bar>real_of_int i - real_of_int j\<bar> \<le> 1"
    by linarith
  then have "\<bar>i - j\<bar> \<le> 1" by linarith
  with ne have d: "\<bar>i - j\<bar> = 1" by linarith
  then have "\<bar>real_of_int i - real_of_int j\<bar> = 1" by linarith
  with a b have "\<bar>x - of_int i\<bar> = 1 / 2" "\<bar>x - of_int j\<bar> = 1 / 2"
    by linarith+
  with assms have "even i" "even j" by (simp_all add: nearest_half_even_def)
  with d show False by presburger
qed

text \<open>Rounding to a double, computed from the binade \<open>2 ^ n \<le> \<bar>x\<bar> < 2 ^ (n + 1)\<close> of \<open>x\<close>.\<close>

lemma round_double_zero: "round_double 0 = 0"
  by (simp add: round_double_def)

lemma round_double_eval:
  assumes lo: "2 ^ n \<le> \<bar>x\<bar>" and hi: "\<bar>x\<bar> < 2 * 2 ^ n"
  shows "round_double x = of_int (py_round (x * 2 ^ 52 / 2 ^ n)) * 2 ^ n / 2 ^ 52"
proof -
  have "(0::real) < 2 ^ n" by simp
  with lo have pos: "0 < \<bar>x\<bar>" by linarith
  then have x0: "x \<noteq> 0" by simp
  have pn: "(2::real) powr real_of_int (int n) = 2 ^ n"
    by (simp add: powr_realpow)
  have "(2::real) powr (real_of_int (int n) + 1) = 2 * 2 ^ n"
    by (simp add: powr_add powr_realpow)
  with lo hi pn have e: "\<lfloor>log 2 \<bar>x\<bar>\<rfloor> = int n"
    using floor_log_eq_powr_iff [of "\<bar>x\<bar>" 2 "int n"] pos by simp
  define u :: real where "u = 2 ^ n / 2 ^ 52"
  have u: "(2::real) powr (real_of_int (int n) - 52) = u"
    using powr_diff [of 2 "real n" 52] by (simp add: powr_realpow u_def)
  have "round_double x = of_int (py_round (x / u)) * u"
    using x0 by (simp only: round_double_def Let_def e u if_False)
  then show ?thesis
    by (simp add: u_def)
qed

lemma round_double_1: "round_double 1 = 1"
  using round_double_eval [of 0 1] by (simp add: py_round_def)

lemma round_double_2: "round_double 2 = 2"
  using round_double_eval [of 1 2] by (simp add: py_round_def)

lemma round_double_3: "round_double 3 = 3"
  using round_double_eval [of 1 3] by (simp add: py_round_def)

lemma round_double_10: "round_double 10 = 10"
  using round_double_eval [of 3 10] by (simp add: py_round_def)

text \<open>
  Near \<open>10 ^ 17\<close> the doubles are the multiples of 16: adding 2 to \<open>10 ^ 17\<close> is lost in
  the rounding.
\<close>

lemma round_double_absorbs: "round_double 100000000000000002 = 100000000000000000"
  using round_double_eval [of 56 100000000000000002] by (simp add: py_round_def)

lemma round_double_large: "round_double 100000000000000000 = 100000000000000000"
  using round_double_eval [of 56 100000000000000000] by (simp add: py_round_def)

text \<open>Halfway between two doubles the one with the even significand is taken.\<close>

lemma round_double_ties:
  "round_double 9007199254740993 = 9007199254740992"
  "round_double 9007199254740995 = 9007199254740996"
  using round_double_eval [of 53 9007199254740993] round_double_eval [of 53 9007199254740995]
  by (simp_all add: py_round_def)

lemmas round_double_simps =
  round_double_zero round_double_1 round_double_2 round_double_3 round_double_10

text \<open>The projection of a point lies on the plane (exact arithmetic).\<close>

lemma project_vector_on_plane:
  fixes P :: "'a::field Vector3"
  assumes "project_vector self P V = Inr X"
  shows "on_plane self X"
proof -
  obtain x y z where P: "P = (x, y, z)" by (cases P)
  obtain vx vy vz where V: "V = (vx, vy, vz)" by (cases V)
  obtain A B C where N: "normal self = (A, B, C)" by (cases "normal self")
  define D where "D = intercept self"
  define den where "den = A * (x - vx) + B * (y - vy) + C * (z - vz)"
  define t where "t = - (A * x + B * y + C * z + D) / den"
  from assms have den0: "den \<noteq> 0"
    by (auto simp add: project_vector_def py_div_def and_then_def idx_defs P V N Let_def
        den_def split: if_splits)
  with assms have X: "X = (x + t * (x - vx), y + t * (y - vy), z + t * (z - vz))"
    by (simp add: project_vector_def py_div_def and_then_def idx_defs P V N Let_def
        den_def t_def D_def)
  have "t * den = - (A * x + B * y + C * z + D)"
    using den0 by (simp add: t_def)
  then show ?thesis
    by (simp add: on_plane_def dot_def idx_defs N X D_def [symmetric] den_def algebra_simps)
qed

section \<open>The decomposition solver\<close>




text \<open>
  C4. For every vector \<open>v\<close> and basis pair \<open>(a, b)\<close> such that the determinant
  \<open>b.x * a.y - b.y * a.x\<close> is zero or \<open>a.x\<close> is zero, \<open>decompose\<close> does not raise: it returns
  the pair \<open>(0, 0)\<close>. No law of arithmetic is used.
\<close>

theorem decompose_singular:
  fixes v :: "'a::{zero,minus,times,inverse} Vector3"
  assumes "idx0 b * idx1 a - idx1 b * idx0 a = 0 \<or> idx0 a = 0"
  shows "decompose v (a, b) = Inr (0, 0)"
proof (cases "idx0 b * idx1 a - idx1 b * idx0 a = 0")
  case True
  then show ?thesis
    by (simp add: decompose_def py_div_def and_then_def)
next
  case False
  with assms have "idx0 a = 0" by simp
  with False show ?thesis
    by (simp add: decompose_def py_div_def and_then_def)
qed

text \<open>
  Both cases at concrete inputs: a zero determinant (\<open>a\<close> and \<open>b\<close> equal in x and y),
  and \<open>a.x = 0\<close> with the determinant \<open>1\<close>.
\<close>

theorem decompose_singular_witness:
  "(idx0 (1, 2, 9 :: real) * idx1 (1, 2, 0 :: real) - idx1 (1, 2, 9 :: real) * idx0 (1, 2, 0 :: real) = 0
      \<or> idx0 (1, 2, 0 :: real) = 0)
   \<and> decompose (4, 5, 6) ((1, 2, 0), (1, 2, 9 :: real)) = Inr (0, 0)
   \<and> (idx0 (1, 0, 0 :: real) * idx1 (0, 1, 0 :: real) - idx1 (1, 0, 0 :: real) * idx0 (0, 1, 0 :: real) = 0
      \<or> idx0 (0, 1, 0 :: real) = 0)
   \<and> decompose (4, 5, 6) ((0, 1, 0), (1, 0, 0 :: real)) = Inr (0, 0)"
proof -
  have det: "idx0 (1, 2, 9 :: real) * idx1 (1, 2, 0 :: real)
      - idx1 (1, 2, 9 :: real) * idx0 (1, 2, 0 :: real) = 0 \<or> idx0 (1, 2, 0 :: real) = 0"
    by (simp add: idx_defs)
  have ax: "idx0 (1, 0, 0 :: real) * idx1 (0, 1, 0 :: real)
      - idx1 (1, 0, 0 :: real) * idx0 (0, 1, 0 :: real) = 0 \<or> idx0 (0, 1, 0 :: real) = 0"
    by (simp add: idx_defs)
  from det decompose_singular [OF det, of "(4, 5, 6)"]
    ax decompose_singular [OF ax, of "(4, 5, 6)"]
  show ?thesis
    by (intro conjI)
qed

text \<open>
  C9. The result of \<open>decompose\<close> depends only on the first two coordinates of its inputs:
  two runs whose inputs agree on the x and y components of \<open>v\<close>, \<open>a\<close> and \<open>b\<close> and differ
  arbitrarily in the z components return equal results. No law of arithmetic is used.
\<close>

theorem decompose_ignores_z:
  fixes vx :: "'a::{zero,minus,times,inverse}"
  shows "decompose (vx, vy, vz) ((ax, ay, az), (bx, by, bz))
       = decompose (vx, vy, vz') ((ax, ay, az'), (bx, by, bz'))"
  by (simp add: decompose_def idx_defs)

theorem decompose_ignores_z_witness:
  "decompose (2, 3, 0) ((1, 0, 0), (0, 1, 0 :: real)) = decompose (2, 3, 7) ((1, 0, 5), (0, 1, - 4))"
  by (rule decompose_ignores_z)



section \<open>Projection onto the plane\<close>

text \<open>
  C6. \<open>project_vector\<close> fails with a division by zero if and only if the denominator
  \<open>normal \<cdot> (P - V)\<close> equals zero; for all other inputs it returns a value. No law of
  arithmetic is used.
\<close>

theorem project_vector_fails_iff:
  fixes P :: "'a::{zero,plus,minus,uminus,times,inverse} Vector3"
  shows "(project_vector self P V = Inl ZeroDivisionError)
           = (dot (normal self) (vec_sub P V) = 0)
       \<and> (\<exists>X. project_vector self P V = Inr X)
           = (dot (normal self) (vec_sub P V) \<noteq> 0)"
  by (simp add: project_vector_def py_div_def and_then_def dot_def vec_sub_def idx_defs Let_def)

text \<open>
  At \<open>P = V\<close> the call fails; from the viewpoint \<open>(0, 0, 2)\<close> above the plane \<open>z = 0\<close> the
  point \<open>(5, 3, -2)\<close> is projected.
\<close>

theorem project_vector_fails_iff_witness:
  "project_vector \<lparr>normal = (2, 2, 1), intercept = 0 :: real\<rparr> (1, 2, 3) (1, 2, 3)
     = Inl ZeroDivisionError
   \<and> (\<exists>X. project_vector ground (5, 3, - 2) (0, 0, 2) = Inr X)"
  using project_vector_fails_iff [of "\<lparr>normal = (2, 2, 1), intercept = 0 :: real\<rparr>" "(1, 2, 3)" "(1, 2, 3)"]
    project_vector_fails_iff [of ground "(5, 3, - 2)" "(0, 0, 2)"]
  by (simp add: dot_def vec_sub_def idx_defs ground_def)



text \<open>The projected point of the example, computed.\<close>

lemma project_vector_example:
  "project_vector ground (5, 3, - 2) (0, 0, 2) = Inr (5 / 2, 3 / 2, 0)"
  by (simp add: project_vector_def py_div_def and_then_def idx_defs ground_def)

section \<open>The view\<close>

text \<open>
  C5. For every point \<open>p\<close>, \<open>project_point\<close> is the composition: first \<open>project_vector\<close> of
  \<open>p\<close> from the viewpoint, whose error it passes on; then \<open>decompose\<close> of the result in
  the cached basis; then both scalars rounded to the nearest integer, halves to the
  even one. The result is a pair of integers.
\<close>

theorem project_point_composition:
  "case project_vector (plane self) p (point self) of
     Inl e \<Rightarrow> project_point self p = Inl e
   | Inr X \<Rightarrow>
       (case decompose X (basis self) of
          Inl e \<Rightarrow> project_point self p = Inl e
        | Inr nm \<Rightarrow>
            (\<exists>i j. project_point self p = Inr (i, j)
                \<and> nearest_half_even (fst nm) i \<and> nearest_half_even (snd nm) j))"
  by (simp add: project_point_def and_then_def py_round_nearest split: sum.split)

text \<open>
  In the example view the point \<open>(5, 3, -2)\<close> is projected to \<open>(5/2, 3/2, 0)\<close> and
  decomposed into \<open>(3/2, 5/2)\<close>; both scalars are halves.
\<close>

theorem project_point_composition_witness:
  "\<exists>i j. project_point view0 (5, 3, - 2) = Inr (i, j)
      \<and> nearest_half_even (3 / 2) i \<and> nearest_half_even (5 / 2) j"
  using project_point_composition [of view0 "(5, 3, - 2)"]
  by (simp add: view0_def project_vector_example decompose_def py_div_def and_then_def idx_defs)

lemma project_point_example: "project_point view0 (5, 3, - 2) = Inr (2, 2)"
  by (simp add: project_point_def view0_def project_vector_example decompose_def py_div_def
      and_then_def idx_defs py_round_def)

text \<open>
  C8. For every View and vector \<open>v\<close>, \<open>move_point\<close> sets the viewpoint to the component-wise
  sum of the viewpoint and \<open>v\<close> and changes nothing else: the plane (normal and
  intercept) and the cached basis are the same before and after the call. The sum is
  the one \<open>fsum\<close> returns, each component rounded to a double; where the exact sum is
  a vector of doubles, it is the exact sum.
\<close>

theorem move_point_frame:
  "point (move_point self v)
     = (round_double (idx0 (point self) + idx0 v), round_double (idx1 (point self) + idx1 v),
        round_double (idx2 (point self) + idx2 v))
   \<and> (double_vec (vec_add (point self) v)
        \<longrightarrow> point (move_point self v)
            = (idx0 (point self) + idx0 v, idx1 (point self) + idx1 v, idx2 (point self) + idx2 v))
   \<and> plane (move_point self v) = plane self
   \<and> normal (plane (move_point self v)) = normal (plane self)
   \<and> intercept (plane (move_point self v)) = intercept (plane self)
   \<and> basis (move_point self v) = basis self"
  by (simp add: move_point_def sum_vec_pair double_vec_def is_double_def vec_add_def idx_defs)

theorem move_point_frame_witness:
  "double_vec (vec_add (point view0) (10, 0, 0))
   \<and> point (move_point view0 (10, 0, 0)) = (10, 0, 2)
   \<and> plane (move_point view0 (10, 0, 0)) = ground
   \<and> basis (move_point view0 (10, 0, 0)) = ((1, 0, 0), (0, 1, 0))"
  using move_point_frame [of view0 "(10, 0, 0)"]
  by (simp add: view0_def idx_defs double_vec_def is_double_def vec_add_def round_double_simps)

text \<open>
  C7 (as amended). A translation immediately undone leaves the projection unchanged
  when the first translation is exact: for every View whose viewpoint is a vector of
  doubles, every vector \<open>v\<close> for which the exact sum of the viewpoint and \<open>v\<close> is a vector
  of doubles, and every point \<open>p\<close>, \<open>move_point v\<close>, then \<open>move_point (mult_vec v (-1))\<close>, then
  \<open>project_point p\<close> yields what \<open>project_point p\<close> yields before either translation.
\<close>

theorem move_point_undone:
  assumes stored: "double_vec (point self)"
    and exact: "double_vec (vec_add (point self) v)"
  shows "project_point (move_point (move_point self v) (mult_vec v (- 1))) p
       = project_point self p"
proof -
  obtain px py pz where pt: "point self = (px, py, pz)" by (cases "point self")
  obtain vx vy vz where v: "v = (vx, vy, vz)" by (cases v)
  from stored have old: "round_double px = px" "round_double py = py" "round_double pz = pz"
    by (simp_all add: double_vec_def is_double_def pt idx_defs)
  from exact have there: "round_double (px + vx) = px + vx" "round_double (py + vy) = py + vy"
      "round_double (pz + vz) = pz + vz"
    by (simp_all add: double_vec_def is_double_def vec_add_def pt v idx_defs)
  define moved where "moved = move_point self v"
  have moved: "point moved = (px + vx, py + vy, pz + vz)"
    by (simp add: moved_def move_point_def sum_vec_pair pt v idx_defs there)
  have "point (move_point moved (mult_vec v (- 1))) = sum_vec [point moved, mult_vec v (- 1)]"
    by (simp add: move_point_def)
  also have "\<dots> = (px, py, pz)"
    by (simp add: sum_vec_pair moved mult_vec_def v idx_defs old)
  finally have "point (move_point (move_point self v) (mult_vec v (- 1))) = point self"
    by (simp add: pt moved_def)
  moreover have "plane (move_point (move_point self v) (mult_vec v (- 1))) = plane self"
    and "basis (move_point (move_point self v) (mult_vec v (- 1))) = basis self"
    by (simp_all add: move_point_def)
  ultimately show ?thesis
    by (simp add: project_point_def)
qed

text \<open>The step of the keyboard handler, \<open>(10, 0, 0)\<close>, from the viewpoint \<open>(0, 0, 2)\<close>.\<close>

theorem move_point_undone_witness:
  "double_vec (point view0)
   \<and> double_vec (vec_add (point view0) (10, 0, 0))
   \<and> project_point (move_point (move_point view0 (10, 0, 0)) (mult_vec (10, 0, 0) (- 1)))
        (5, 3, - 2) = Inr (2, 2)"
proof -
  have stored: "double_vec (point view0)"
    by (simp add: view0_def double_vec_def is_double_def idx_defs round_double_simps)
  have exact: "double_vec (vec_add (point view0) (10, 0, 0))"
    by (simp add: view0_def double_vec_def is_double_def vec_add_def idx_defs
        round_double_simps)
  have "project_point (move_point (move_point view0 (10, 0, 0)) (mult_vec (10, 0, 0) (- 1)))
      (5, 3, - 2) = Inr (2, 2)"
    using move_point_undone [OF stored exact, of "(5, 3, - 2)"]
    by (simp only: project_point_example)
  with stored exact show ?thesis
    by (intro conjI)
qed

text \<open>
  The claim C7 as the specification states it, for every View and every vector, fails:
  the two sums are rounded. From the viewpoint \<open>(0, 0, 2)\<close> above the plane \<open>z = 0\<close> the
  translation by \<open>(0, 0, 10 ^ 17)\<close>, a vector of doubles, gives the viewpoint
  \<open>(0, 0, 10 ^ 17)\<close>, since \<open>10 ^ 17 + 2\<close> is no double; undoing it gives \<open>(0, 0, 0)\<close>, and
  the point \<open>(5, 3, -2)\<close>, projected to \<open>(2, 2)\<close> before, is projected to \<open>(0, 0)\<close>.
\<close>

theorem move_point_undone_counterexample:
  "double_vec (point view0)
   \<and> double_vec (0, 0, 100000000000000000)
   \<and> project_point view0 (5, 3, - 2) = Inr (2, 2)
   \<and> point (move_point (move_point view0 (0, 0, 100000000000000000))
              (mult_vec (0, 0, 100000000000000000) (- 1))) = (0, 0, 0)
   \<and> project_point (move_point (move_point view0 (0, 0, 100000000000000000))
                     (mult_vec (0, 0, 100000000000000000) (- 1))) (5, 3, - 2) = Inr (0, 0)
   \<and> project_point (move_point (move_point view0 (0, 0, 100000000000000000))
                     (mult_vec (0, 0, 100000000000000000) (- 1))) (5, 3, - 2)
       \<noteq> project_point view0 (5, 3, - 2)"
proof -
  have stored: "double_vec (point view0)"
    by (simp add: view0_def double_vec_def is_double_def idx_defs round_double_simps)
  have v: "double_vec (0, 0, 100000000000000000)"
    by (simp add: double_vec_def is_double_def idx_defs round_double_zero round_double_large)
  have there: "move_point view0 (0, 0, 100000000000000000)
      = view0\<lparr>point := (0, 0, 100000000000000000)\<rparr>"
    by (simp add: move_point_def sum_vec_pair view0_def idx_defs round_double_zero
        round_double_absorbs)
  have undone: "move_point (move_point view0 (0, 0, 100000000000000000))
        (mult_vec (0, 0, 100000000000000000) (- 1)) = view0\<lparr>point := (0, 0, 0)\<rparr>"
    unfolding there
    by (simp add: move_point_def sum_vec_pair mult_vec_def idx_defs round_double_zero)
  have after: "project_point (view0\<lparr>point := (0, 0, 0)\<rparr>) (5, 3, - 2) = Inr (0, 0)"
    by (simp add: project_point_def view0_def ground_def project_vector_def decompose_def
        py_div_def and_then_def idx_defs py_round_def)
  from stored v show ?thesis
    by (simp add: undone after project_point_example)
qed

section \<open>The basis of the plane\<close>

lemma sum_sq_zero: "(a::real)\<^sup>2 + b\<^sup>2 + c\<^sup>2 = 0 \<longleftrightarrow> a = 0 \<and> b = 0 \<and> c = 0"
proof
  assume h: "a\<^sup>2 + b\<^sup>2 + c\<^sup>2 = 0"
  have "0 \<le> a\<^sup>2" "0 \<le> b\<^sup>2" "0 \<le> c\<^sup>2" by simp_all
  with h have "a\<^sup>2 = 0" "b\<^sup>2 = 0" "c\<^sup>2 = 0" by linarith+
  then show "a = 0 \<and> b = 0 \<and> c = 0" by simp
qed simp

lemma dot_self_zero: "dot v v = 0 \<longleftrightarrow> v = (0, 0, 0 :: real)"
proof -
  obtain a b c where v: "v = (a, b, c)" by (cases v)
  show ?thesis
    using sum_sq_zero [of a b c] by (simp add: v dot_def idx_defs power2_eq_square)
qed

text \<open>\<open>normalize_vec\<close> raises exactly on the zero vector.\<close>

lemma normalize_vec_eq:
  "normalize_vec v =
     (if v = (0, 0, 0) then Inl ZeroDivisionError
      else Inr (idx0 v / sqrt (dot v v), idx1 v / sqrt (dot v v), idx2 v / sqrt (dot v v)))"
proof -
  obtain a b c where v: "v = (a, b, c)" by (cases v)
  show ?thesis
    by (simp add: v normalize_vec_def py_div_def and_then_def idx_defs dot_def Let_def
        sum_sq_zero power2_eq_square [symmetric])
qed

text \<open>The second vector is the normalised cross product of the normal and the first.\<close>

lemma get_vectors_eq:
  "get_vectors self hint =
     and_then (project_through self hint)
       (\<lambda>p. and_then (normalize_vec p)
       (\<lambda>q. and_then (normalize_vec (cross (normal self) q))
       (\<lambda>r. Inr (q, r))))"
  by (simp add: get_vectors_def cross_def Let_def)

lemma cross_orth:
  fixes u :: "'a::comm_ring Vector3"
  shows "dot u (cross u v) = 0" and "dot v (cross u v) = 0"
  by (simp_all add: dot_def cross_def idx_defs algebra_simps)

text \<open>
  What \<open>get_vectors\<close> achieves whenever it returns, the operators being exact: \<open>r\<close> is
  orthogonal to \<open>q\<close> and to the normal, and \<open>q\<close> is orthogonal to the normal exactly when
  the plane passes through the origin. The vector \<open>q\<close> is the normalised position of the
  projected hint, a point of the plane, and the position of a point of a plane that
  misses the origin is no direction of it.
\<close>

lemma get_vectors_orthogonality:
  assumes run: "get_vectors self hint = Inr (q, r)"
  shows "dot q r = 0 \<and> dot (normal self) r = 0
       \<and> (dot (normal self) q = 0 \<longleftrightarrow> intercept self = 0)"
proof -
  let ?n = "normal self"
  from run obtain X where pt: "project_through self hint = Inr X"
    and nq: "normalize_vec X = Inr q"
    and nr: "normalize_vec (cross ?n q) = Inr r"
    by (auto simp add: get_vectors_eq and_then_def split: sum.splits)
  from pt have "on_plane self X"
    unfolding project_through_def by (rule project_vector_on_plane)
  then have nX: "dot ?n X = - intercept self"
    by (simp add: on_plane_def eq_neg_iff_add_eq_0)
  define M where "M = sqrt (dot X X)"
  from nq have X0: "X \<noteq> (0, 0, 0)"
    by (auto simp add: normalize_vec_eq split: if_splits)
  with nq have q: "q = (idx0 X / M, idx1 X / M, idx2 X / M)"
    by (simp add: normalize_vec_eq M_def)
  have M: "M \<noteq> 0"
    using X0 by (simp add: M_def dot_self_zero)
  have "dot ?n q = dot ?n X / M"
    by (simp add: dot_def q idx_defs add_divide_distrib)
  then have nq0: "dot ?n q = 0 \<longleftrightarrow> intercept self = 0"
    using nX M by simp
  define c where "c = cross ?n q"
  define M2 where "M2 = sqrt (dot c c)"
  from nr have c0: "c \<noteq> (0, 0, 0)"
    by (auto simp add: normalize_vec_eq c_def split: if_splits)
  with nr have r: "r = (idx0 c / M2, idx1 c / M2, idx2 c / M2)"
    by (simp add: normalize_vec_eq c_def M2_def)
  have "dot q r = dot q c / M2"
    by (simp add: dot_def r idx_defs add_divide_distrib)
  then have qr: "dot q r = 0"
    by (simp add: c_def cross_orth)
  have "dot ?n r = dot ?n c / M2"
    by (simp add: dot_def r idx_defs add_divide_distrib)
  then have nr0: "dot ?n r = 0"
    by (simp add: c_def cross_orth)
  from qr nr0 nq0 show ?thesis by blast
qed

lemma sqrt_25: "sqrt 25 = 5"
  using real_sqrt_abs [of 5] by simp

lemma sqrt_9_25: "sqrt (9 / 25) = 3 / 5"
  using real_sqrt_abs [of "3 / 5"] by (simp add: power2_eq_square)

text \<open>
  C3 claims that for every plane with a non-zero normal and every hint that is not
  parallel to the normal, \<open>get_vectors\<close> returns \<open>(q, r)\<close> with \<open>q \<cdot> r\<close>, \<open>normal \<cdot> q\<close> and
  \<open>normal \<cdot> r\<close> all zero up to a tolerance. The code does not achieve that for a plane
  that misses the origin: for the plane \<open>z = 4\<close> (normal \<open>(0, 0, 1)\<close>, intercept \<open>-4\<close>) and
  the hint \<open>(3, 0, 0)\<close> it returns \<open>q = (3/5, 0, 4/5)\<close> and \<open>r = (0, 1, 0)\<close>, and
  \<open>normal \<cdot> q = 4/5\<close>.
\<close>

theorem get_vectors_offset_plane:
  "normal \<lparr>normal = (0, 0, 1), intercept = - 4 :: real\<rparr> \<noteq> (0, 0, 0)
   \<and> \<not> collinear (normal \<lparr>normal = (0, 0, 1), intercept = - 4 :: real\<rparr>) (3, 0, 0)
   \<and> get_vectors \<lparr>normal = (0, 0, 1), intercept = - 4\<rparr> (3, 0, 0)
       = Inr ((3 / 5, 0, 4 / 5), (0, 1, 0))
   \<and> dot (normal \<lparr>normal = (0, 0, 1), intercept = - 4 :: real\<rparr>) (3 / 5, 0, 4 / 5) = 4 / 5"
  by (simp add: get_vectors_def project_through_def project_vector_def normalize_vec_def
      sum_vec_pair round_double_simps py_div_def and_then_def idx_defs Let_def sqrt_25
      sqrt_9_25 power2_eq_square collinear_def cross_def dot_def)

text \<open>The view of the examples is what the constructor builds from the hint \<open>(1, 0, 0)\<close>.\<close>

lemma View_init_example: "View_init (0, 0, 2) ground (1, 0, 0) = Inr view0"
  by (simp add: View_init_def get_vectors_def project_through_def project_vector_def
      normalize_vec_def sum_vec_pair round_double_simps py_div_def and_then_def idx_defs
      Let_def ground_def view0_def)

end
